theory Spec2Isabelle
  imports Complex_Main
begin

section \<open>Python values used by the handlers of app/main.py\<close>

subsection \<open>Decimal formatting\<close>

definition digit_char :: "nat \<Rightarrow> char" where
  "digit_char d = ''0123456789'' ! d"

text \<open>\<^verbatim>\<open>str(n)\<close> of a non-negative Python int, and of any int as an f-string field prints it.\<close>

fun str_nat :: "nat \<Rightarrow> string" where
  "str_nat n = (if n < 10 then [digit_char n] else str_nat (n div 10) @ [digit_char (n mod 10)])"

declare str_nat.simps [simp del]

definition str_int :: "int \<Rightarrow> string" where
  "str_int i = (if i < 0 then CHR ''-'' # str_nat (nat (- i)) else str_nat (nat i))"

subsection \<open>datetime and timedelta\<close>

text \<open>
  A naive \<^verbatim>\<open>datetime\<close> is the number of microseconds since 0001-01-01T00:00:00 and a
  \<^verbatim>\<open>timedelta\<close> a number of microseconds. The civil date of a day number is computed the
  way the standard library does (\<^verbatim>\<open>_ord2ymd\<close>); \<^verbatim>\<open>datetime.now()\<close> lies in the years
  1..9999, where \<^verbatim>\<open>%Y\<close> prints four digits and \<^verbatim>\<open>%m\<close>, \<^verbatim>\<open>%d\<close> two each.
\<close>

type_synonym datetime = int



definition toordinal :: "datetime \<Rightarrow> int" where
  "toordinal t = t div 86400000000 + 1"

definition DAYS_IN_MONTH :: "int list" where
  "DAYS_IN_MONTH = [-1, 31, 28, 31, 30, 31, 30, 31, 31, 30, 31, 30, 31]"

definition DAYS_BEFORE_MONTH :: "int list" where
  "DAYS_BEFORE_MONTH = [-1, 0, 31, 59, 90, 120, 151, 181, 212, 243, 273, 304, 334]"

definition ord2ymd :: "int \<Rightarrow> int \<times> int \<times> int" where
  "ord2ymd n0 =
    (let n = n0 - 1;
         n400 = n div 146097; n = n mod 146097;
         n100 = n div 36524; n = n mod 36524;
         n4 = n div 1461; n = n mod 1461;
         n1 = n div 365; n = n mod 365;
         year = n400 * 400 + 1 + n100 * 100 + n4 * 4 + n1
     in if n1 = 4 \<or> n100 = 4 then (year - 1, 12, 31)
        else
          let leapyear = (n1 = 3 \<and> (n4 \<noteq> 24 \<or> n100 = 3));
              month = (n + 50) div 32;
              preceding = DAYS_BEFORE_MONTH ! nat month + (if month > 2 \<and> leapyear then 1 else 0)
          in if preceding > n
             then
               let month = month - 1;
                   preceding = preceding - (DAYS_IN_MONTH ! nat month + (if month = 2 \<and> leapyear then 1 else 0))
               in (year, month, n - preceding + 1)
             else (year, month, n - preceding + 1))"

definition digits2 :: "int \<Rightarrow> string" where
  "digits2 k = [digit_char (nat (k div 10 mod 10)), digit_char (nat (k mod 10))]"

definition digits4 :: "int \<Rightarrow> string" where
  "digits4 k = [digit_char (nat (k div 1000 mod 10)), digit_char (nat (k div 100 mod 10)),
                digit_char (nat (k div 10 mod 10)), digit_char (nat (k mod 10))]"

text \<open>\<^verbatim>\<open>t.strftime('%Y%m%d')\<close>\<close>

definition strftime_Ymd :: "datetime \<Rightarrow> string" where
  "strftime_Ymd t = (case ord2ymd (toordinal t) of (y, m, d) \<Rightarrow> digits4 y @ digits2 m @ digits2 d)"

subsection \<open>Exceptions and the HTTP status of a handler's outcome\<close>

text \<open>
  A handler either returns a body or raises. A returned body is answered with 200 (a
  response object that a handler builds itself, such as a redirect, carries its own
  status). \<^verbatim>\<open>HTTPException(status_code, detail)\<close> is answered with that status and detail;
  any other exception that leaves a handler is answered with 500. \<open>Raised m\<close> stands for an instance of \<^verbatim>\<open>Exception\<close> raised by library
  code (network, JSON decoding, file access) whose \<^verbatim>\<open>str\<close> is \<open>m\<close>.
\<close>

datatype exn =
    HTTPException nat string
  | ValidationError "string list"
  | NameError string
  | KeyError string
  | TypeError string
  | Raised string

fun status_code :: "exn + 'a \<Rightarrow> nat" where
  "status_code (Inr _) = 200"
| "status_code (Inl (HTTPException s d)) = s"
| "status_code (Inl _) = 500"

definition bind_exn :: "exn + 'a \<Rightarrow> ('a \<Rightarrow> exn + 'b) \<Rightarrow> exn + 'b" where
  "bind_exn r f = (case r of Inl e \<Rightarrow> Inl e | Inr v \<Rightarrow> f v)"

section \<open>Ticket models (lines 1503-1556, 1633-1646)\<close>

datatype TicketStatus = OPEN | IN_PROGRESS | RESOLVED | CLOSED

datatype TicketPriority = LOW | MEDIUM | HIGH | CRITICAL

datatype TicketType = BUG | FEATURE | TASK | TECHNICAL_DEBT

record TicketCreate =
  tc_title :: string
  tc_description :: string
  tc_status :: TicketStatus
  tc_priority :: TicketPriority
  tc_type :: TicketType
  tc_assigned_to :: "string option"
  tc_project_id :: string
  tc_asset_id :: "string option"
  tc_shot_id :: "string option"
  tc_due_date :: "datetime option"
  tc_tags :: "string list"
  tc_environment :: "string option"
  tc_reproducibility_steps :: "string option"
  tc_time_estimate :: "real option"

record TicketResponse =
  tr_id :: string
  tr_title :: string
  tr_description :: string
  tr_status :: TicketStatus
  tr_priority :: TicketPriority
  tr_type :: TicketType
  tr_created_by :: string
  tr_assigned_to :: "string option"
  tr_project_id :: string
  tr_created_at :: datetime
  tr_updated_at :: datetime
  tr_due_date :: "datetime option"
  tr_tags :: "string list"
  tr_environment :: "string option"
  tr_time_estimate :: "real option"
  tr_time_spent :: "real option"



subsection \<open>Constructing a TicketResponse\<close>

text \<open>
  \<^verbatim>\<open>TicketResponse\<close> declares \<^verbatim>\<open>due_date\<close> and \<^verbatim>\<open>time_estimate\<close> as \<^verbatim>\<open>Optional[...]\<close> without a
  default and \<^verbatim>\<open>time_spent\<close> with the default 0.0. Some calls of the constructor leave these
  keyword arguments out. What the model library does then depends on its major version,
  which the repository does not pin: version 1 fills an omitted Optional field with None,
  version 2 treats it as required and raises a validation error naming the missing fields.
  The version is a parameter of every handler that builds a \<^verbatim>\<open>TicketResponse\<close>.
\<close>

datatype pydantic = V1 | V2

datatype 'a kwarg = Omitted | Passed 'a

fun missing_optional :: "pydantic \<Rightarrow> string \<Rightarrow> 'a option kwarg \<Rightarrow> string list" where
  "missing_optional V2 name Omitted = [name]"
| "missing_optional _ name _ = []"

fun optional_value :: "'a option kwarg \<Rightarrow> 'a option" where
  "optional_value Omitted = None"
| "optional_value (Passed v) = v"

definition TicketResponse_init ::
  "pydantic \<Rightarrow> string \<Rightarrow> string \<Rightarrow> string \<Rightarrow> TicketStatus \<Rightarrow> TicketPriority \<Rightarrow> TicketType \<Rightarrow>
   string \<Rightarrow> string option \<Rightarrow> string \<Rightarrow> datetime \<Rightarrow> datetime \<Rightarrow> datetime option kwarg \<Rightarrow>
   string list \<Rightarrow> string option \<Rightarrow> real option kwarg \<Rightarrow> real option kwarg \<Rightarrow> exn + TicketResponse" where
  "TicketResponse_init pv ident title description status priority typ created_by assigned_to
     project_id created_at updated_at due_date tags environment time_estimate time_spent =
    (let missing = missing_optional pv ''due_date'' due_date @ missing_optional pv ''time_estimate'' time_estimate
     in if missing \<noteq> [] then Inl (ValidationError missing)
        else Inr \<lparr> tr_id = ident, tr_title = title, tr_description = description,
                   tr_status = status, tr_priority = priority, tr_type = typ,
                   tr_created_by = created_by, tr_assigned_to = assigned_to,
                   tr_project_id = project_id, tr_created_at = created_at,
                   tr_updated_at = updated_at, tr_due_date = optional_value due_date,
                   tr_tags = tags, tr_environment = environment,
                   tr_time_estimate = optional_value time_estimate,
                   tr_time_spent = (case time_spent of Omitted \<Rightarrow> Some 0 | Passed v \<Rightarrow> v) \<rparr>)"

section \<open>Ticket handlers\<close>

text \<open>
  Every \<^verbatim>\<open>datetime.now()\<close> a handler evaluates is an argument of its model, in the order of
  evaluation. \<open>py_hash\<close> is the interpreter's \<^verbatim>\<open>hash\<close> on datetimes.
\<close>

text \<open>\<^verbatim>\<open>create_ticket\<close>, line 1558: the first handler registered for POST /api/tickets.\<close>

definition create_ticket ::
  "pydantic \<Rightarrow> (datetime \<Rightarrow> int) \<Rightarrow> TicketCreate \<Rightarrow> string \<Rightarrow> datetime \<Rightarrow> datetime \<Rightarrow> datetime \<Rightarrow> datetime
   \<Rightarrow> exn + TicketResponse" where
  "create_ticket pv py_hash ticket current_user now1 now2 now3 now4 =
    (let ticket_id = take 16 (''TICKET-'' @ strftime_Ymd now1 @ ''-'' @ str_int (py_hash now2))
     in TicketResponse_init pv ticket_id (tc_title ticket) (tc_description ticket) (tc_status ticket)
          (tc_priority ticket) (tc_type ticket) current_user (tc_assigned_to ticket)
          (tc_project_id ticket) now3 now4 (Passed (tc_due_date ticket)) (tc_tags ticket)
          (tc_environment ticket) (Passed (tc_time_estimate ticket)) (Passed (Some 0)))"


text \<open>\<^verbatim>\<open>list_tickets\<close>, line 1604: the first handler registered for GET /api/tickets.\<close>

definition list_tickets ::
  "pydantic \<Rightarrow> TicketStatus option \<Rightarrow> TicketPriority option \<Rightarrow> string option \<Rightarrow> string option \<Rightarrow>
   datetime \<Rightarrow> datetime \<Rightarrow> exn + TicketResponse list" where
  "list_tickets pv status priority assigned_to project_id now1 now2 =
    bind_exn
      (TicketResponse_init pv ''TICKET-123'' ''Sample Ticket'' ''This is a sample ticket'' OPEN MEDIUM TASK
         ''user123'' None ''project123'' now1 now2 Omitted [''sample''] (Some ''maya_2024'') Omitted Omitted)
      (\<lambda>t. Inr [t])"


















section \<open>Routing\<close>

text \<open>
  The application object keeps its routes in a list, in the order of registration: the
  routes the framework adds when the application is created, the mount of line 55, then
  one route for each decorator of the file from top to bottom. A request is served by the
  first route of the list whose path pattern and method both match. A pattern matches a
  path when both have the same number of \<^verbatim>\<open>/\<close>-separated segments, a literal segment is
  equal to the path's and a \<^verbatim>\<open>{name}\<close> segment stands for any non-empty segment. When no
  route matches fully but the path of some route does, the answer is 405; otherwise 404
  (the redirect the framework tries for a path that differs from a route by its final
  slash is left out).
\<close>

datatype endpoint =
    Openapi | Swagger_ui | Swagger_redirect | Redoc | Static
  | Root | Discord_login | Discord_callback | Debug_oauth | Get_bot_invite
  | Get_assets | Create_review | Get_productivity_stats | Get_pipeline_dependencies
  | Trigger_automated_task | Get_render_queue | Submit_render_job | Get_project_milestones
  | Get_system_health | Send_discord_notification | Create_issue | Get_issues
  | Create_ticket_1558 | Get_ticket | List_tickets | Update_ticket | Add_ticket_comment
  | Get_ticket_history | Assign_ticket | Get_ticket_statistics | Get_tickets_1776
  | Create_ticket_1805 | Debug_tickets | Test_endpoint | Get_old_tickets | Get_bot_status

datatype route = Route string string endpoint | Mount string endpoint

definition routes :: "route list" where
  "routes =
    [ Route ''GET'' ''/openapi.json'' Openapi,
      Route ''GET'' ''/docs'' Swagger_ui,
      Route ''GET'' ''/docs/oauth2-redirect'' Swagger_redirect,
      Route ''GET'' ''/redoc'' Redoc,
      Mount ''/static'' Static,
      Route ''GET'' ''/'' Root,
      Route ''GET'' ''/auth/login'' Discord_login,
      Route ''GET'' ''/auth/callback'' Discord_callback,
      Route ''GET'' ''/debug/oauth'' Debug_oauth,
      Route ''GET'' ''/auth/bot-invite'' Get_bot_invite,
      Route ''GET'' ''/api/assets'' Get_assets,
      Route ''POST'' ''/api/assets/{asset_id}/review'' Create_review,
      Route ''GET'' ''/api/statistics/productivity'' Get_productivity_stats,
      Route ''GET'' ''/api/pipeline/dependencies'' Get_pipeline_dependencies,
      Route ''POST'' ''/api/pipeline/automated-tasks'' Trigger_automated_task,
      Route ''GET'' ''/api/render-queue'' Get_render_queue,
      Route ''POST'' ''/api/render-jobs'' Submit_render_job,
      Route ''GET'' ''/api/projects/{project_id}/milestones'' Get_project_milestones,
      Route ''GET'' ''/api/system/health'' Get_system_health,
      Route ''POST'' ''/api/notifications/discord'' Send_discord_notification,
      Route ''POST'' ''/api/issues'' Create_issue,
      Route ''GET'' ''/api/issues'' Get_issues,
      Route ''POST'' ''/api/tickets'' Create_ticket_1558,
      Route ''GET'' ''/api/tickets/{ticket_id}'' Get_ticket,
      Route ''GET'' ''/api/tickets'' List_tickets,
      Route ''PUT'' ''/api/tickets/{ticket_id}'' Update_ticket,
      Route ''POST'' ''/api/tickets/{ticket_id}/comments'' Add_ticket_comment,
      Route ''GET'' ''/api/tickets/{ticket_id}/history'' Get_ticket_history,
      Route ''POST'' ''/api/tickets/{ticket_id}/assign'' Assign_ticket,
      Route ''GET'' ''/api/tickets/statistics'' Get_ticket_statistics,
      Route ''GET'' ''/api/tickets'' Get_tickets_1776,
      Route ''POST'' ''/api/tickets'' Create_ticket_1805,
      Route ''GET'' ''/api/debug/tickets'' Debug_tickets,
      Route ''GET'' ''/api/test'' Test_endpoint,
      Route ''GET'' ''/api/old-tickets'' Get_old_tickets,
      Route ''GET'' ''/api/bot/status'' Get_bot_status ]"

fun split_on :: "char \<Rightarrow> string \<Rightarrow> string list" where
  "split_on c [] = [[]]"
| "split_on c (x # xs) =
     (if x = c then [] # split_on c xs
      else (case split_on c xs of [] \<Rightarrow> [[x]] | w # ws \<Rightarrow> (x # w) # ws))"

definition is_param :: "string \<Rightarrow> bool" where
  "is_param seg = (seg \<noteq> [] \<and> hd seg = CHR ''{'' \<and> last seg = CHR ''}'')"

fun segments_match :: "string list \<Rightarrow> string list \<Rightarrow> bool" where
  "segments_match [] [] = True"
| "segments_match (p # ps) (s # ss) =
     ((if is_param p then s \<noteq> [] else p = s) \<and> segments_match ps ss)"
| "segments_match _ _ = False"

definition path_matches :: "string \<Rightarrow> string \<Rightarrow> bool" where
  "path_matches pattern path = segments_match (split_on CHR ''/'' pattern) (split_on CHR ''/'' path)"

fun path_params :: "string list \<Rightarrow> string list \<Rightarrow> (string \<times> string) list" where
  "path_params (p # ps) (s # ss) =
     (if is_param p then (butlast (tl p), s) # path_params ps ss else path_params ps ss)"
| "path_params _ _ = []"

datatype resolution = Serve endpoint "(string \<times> string) list" | Method_not_allowed | Not_found

fun route_path_matches :: "route \<Rightarrow> string \<Rightarrow> bool" where
  "route_path_matches (Route m pattern e) path = path_matches pattern path"
| "route_path_matches (Mount prefix e) path = (take (length prefix + 1) path = prefix @ ''/'')"

fun resolve :: "route list \<Rightarrow> bool \<Rightarrow> string \<Rightarrow> string \<Rightarrow> resolution" where
  "resolve [] partial method path = (if partial then Method_not_allowed else Not_found)"
| "resolve (Mount prefix e # rs) partial method path =
     (if route_path_matches (Mount prefix e) path then Serve e []
      else resolve rs partial method path)"
| "resolve (Route m pattern e # rs) partial method path =
     (if path_matches pattern path
      then (if m = method
            then Serve e (path_params (split_on CHR ''/'' pattern) (split_on CHR ''/'' path))
            else resolve rs True method path)
      else resolve rs partial method path)"

definition dispatch :: "string \<Rightarrow> string \<Rightarrow> resolution" where
  "dispatch method path = resolve routes False method path"

fun endpoint_of :: "route \<Rightarrow> endpoint" where
  "endpoint_of (Route m pattern e) = e"
| "endpoint_of (Mount prefix e) = e"

fun full_match :: "route \<Rightarrow> string \<Rightarrow> string \<Rightarrow> bool" where
  "full_match (Route m pattern e) method path = (path_matches pattern path \<and> m = method)"
| "full_match (Mount prefix e) method path = route_path_matches (Mount prefix e) path"

section \<open>OAuth endpoints\<close>

subsection \<open>GET /auth/login (line 1153)\<close>

text \<open>
  \<^verbatim>\<open>urllib.parse.quote(s)\<close> with the default \<^verbatim>\<open>safe='/'\<close>, on ASCII text: letters, digits
  and \<^verbatim>\<open>_.-~/\<close> stay, every other character becomes \<^verbatim>\<open>%XX\<close>.
\<close>

definition ALWAYS_SAFE :: string where
  "ALWAYS_SAFE = ''ABCDEFGHIJKLMNOPQRSTUVWXYZabcdefghijklmnopqrstuvwxyz0123456789_.-~''"

definition hex2 :: "nat \<Rightarrow> string" where
  "hex2 n = [''0123456789ABCDEF'' ! (n div 16), ''0123456789ABCDEF'' ! (n mod 16)]"

definition quote :: "string \<Rightarrow> string" where
  "quote s = concat (map (\<lambda>c. if c \<in> set (ALWAYS_SAFE @ ''/'') then [c] else CHR ''%'' # hex2 (of_char c)) s)"

definition oauth_url :: string where
  "oauth_url =
    ''https://discord.com/api/oauth2/authorize'' @ ''?client_id=1303089786495565875'' @
    ''&permissions=8'' @ ''&response_type=code'' @
    ''&redirect_uri='' @ quote ''http://127.0.0.1:8000/auth/callback'' @
    ''&scope='' @ quote (''bot '' @ ''applications.commands '' @ ''identify '' @ ''guilds '' @ ''guilds.members.read'')"

text \<open>
  The names bound in the module's namespace when a request arrives: what the import
  statements of lines 1-22 bind, and every name assigned, defined or declared at the top
  level of the file. A name that is read and is neither bound there nor a builtin raises
  \<^verbatim>\<open>NameError\<close>.
\<close>

definition module_globals :: "string list" where
  "module_globals =
    [ ''FastAPI'', ''HTTPException'', ''CORSMiddleware'', ''RedirectResponse'', ''HTMLResponse'',
      ''StaticFiles'', ''BaseModel'', ''Field'', ''datetime'', ''timedelta'', ''os'', ''aiohttp'',
      ''load_dotenv'', ''quote'', ''urlencode'', ''List'', ''Optional'', ''Dict'', ''Enum'', ''Response'',
      ''logging'', ''status'', ''glob'', ''markdown'', ''Path'', ''discord'', ''ui'', ''commands'', ''asyncio'',
      ''logger'', ''DISCORD_CLIENT_ID'', ''DISCORD_CLIENT_SECRET'', ''DISCORD_REDIRECT_URI'',
      ''DISCORD_BOT_TOKEN'', ''app'', ''BASE_DIR'', ''add_cache_control_headers'', ''root'',
      ''discord_login'', ''discord_callback'', ''debug_oauth'', ''get_bot_invite'', ''RenderJob'',
      ''ProjectMilestone'', ''Asset'', ''Review'', ''TimeLog'', ''get_assets'', ''create_review'',
      ''get_productivity_stats'', ''get_pipeline_dependencies'', ''trigger_automated_task'',
      ''get_render_queue'', ''submit_render_job'', ''get_project_milestones'', ''get_system_health'',
      ''send_discord_notification'', ''IssueComment'', ''Issue'', ''create_issue'', ''get_issues'',
      ''TicketStatus'', ''TicketPriority'', ''TicketType'', ''TicketCreate'', ''TicketResponse'',
      ''create_ticket'', ''get_ticket'', ''list_tickets'', ''TicketComment'', ''TicketUpdate'',
      ''update_ticket'', ''add_ticket_comment'', ''get_ticket_history'', ''assign_ticket'',
      ''get_ticket_statistics'', ''TicketBase'', ''get_tickets'', ''debug_tickets'', ''test_endpoint'',
      ''get_old_tickets'', ''GUILD_ID'', ''bot'', ''intents'', ''on_ready'', ''startup_event'',
      ''get_bot_status'' ]"

record RedirectResponse =
  rr_status_code :: nat
  rr_url :: string

text \<open>
  The handler reads the name \<^verbatim>\<open>urllib\<close> while it builds the URL. A \<^verbatim>\<open>RedirectResponse\<close>
  built without a status code carries the framework's default, 307.
\<close>

definition discord_login :: "string list \<Rightarrow> exn + RedirectResponse" where
  "discord_login globals =
    (if ''urllib'' \<in> set globals
     then Inr \<lparr> rr_status_code = 307, rr_url = oauth_url \<rparr>
     else Inl (NameError ''urllib''))"

subsection \<open>GET /auth/callback (line 1174)\<close>

text \<open>
  JSON values as the decoder returns them, numbers with a fraction or an exponent left
  out. An object is the list of its items.
\<close>

datatype json = JNull | JBool bool | JInt int | JStr string | JArray "json list" | JObject "(string \<times> json) list"

text \<open>\<^verbatim>\<open>v[k]\<close> for a string key \<^verbatim>\<open>k\<close>.\<close>

fun getitem :: "json \<Rightarrow> string \<Rightarrow> exn + json" where
  "getitem (JObject kvs) k = (case map_of kvs k of Some v \<Rightarrow> Inr v | None \<Rightarrow> Inl (KeyError k))"
| "getitem (JArray xs) k = Inl (TypeError ''list indices must be integers or slices, not str'')"
| "getitem (JStr s) k = Inl (TypeError (''string indices must be integers, not 'str'' @ [CHR 0x27]))"
| "getitem JNull k = Inl (TypeError ([CHR 0x27] @ ''NoneType' object is not subscriptable''))"
| "getitem (JBool b) k = Inl (TypeError ([CHR 0x27] @ ''bool' object is not subscriptable''))"
| "getitem (JInt i) k = Inl (TypeError ([CHR 0x27] @ ''int' object is not subscriptable''))"

text \<open>
  What the upstream answers: the status of the response, the text of its body, and the
  outcome of \<^verbatim>\<open>await response.json()\<close>. The two requests of the callback are functions of
  what is sent; either may raise instead of answering.
\<close>

record client_response =
  cr_status :: int
  cr_body :: string
  cr_json :: "exn + json"

record network =
  session_post :: "string \<Rightarrow> (string \<times> string option) list \<Rightarrow> exn + client_response"
  session_get :: "string \<Rightarrow> (string \<times> string) list \<Rightarrow> exn + client_response"

text \<open>
  \<^verbatim>\<open>str(e)\<close> of an exception and the text an f-string field prints for a JSON value are
  fixed by the interpreter and by the libraries that define the exception classes; they
  are parameters of the handler.
\<close>

record python =
  str_exn :: "exn \<Rightarrow> string"
  str_json :: "json \<Rightarrow> string"

record config =
  DISCORD_CLIENT_ID :: "string option"
  DISCORD_CLIENT_SECRET :: "string option"
  DISCORD_REDIRECT_URI :: string

record callback_result =
  cb_user :: json
  cb_access_token :: json

text \<open>The form \<^verbatim>\<open>data\<close> posted to the token endpoint.\<close>

definition token_form :: "config \<Rightarrow> string \<Rightarrow> (string \<times> string option) list" where
  "token_form cfg code =
    [ (''client_id'', DISCORD_CLIENT_ID cfg),
      (''client_secret'', DISCORD_CLIENT_SECRET cfg),
      (''grant_type'', Some ''authorization_code''),
      (''code'', Some code),
      (''redirect_uri'', Some (DISCORD_REDIRECT_URI cfg)),
      (''scope'', Some ''identify guilds bot applications.commands'') ]"

text \<open>The body of the \<^verbatim>\<open>try\<close> block.\<close>

definition discord_callback_try :: "config \<Rightarrow> python \<Rightarrow> network \<Rightarrow> string \<Rightarrow> exn + callback_result" where
  "discord_callback_try cfg py net code =
    (let data = token_form cfg code
     in bind_exn (session_post net ''https://discord.com/api/oauth2/token'' data) (\<lambda>response.
        if cr_status response \<noteq> 200 then Inl (HTTPException 400 ''Failed to get access token'')
        else bind_exn (cr_json response) (\<lambda>token_data.
        bind_exn (getitem token_data ''access_token'') (\<lambda>token.
        let headers = [(''Authorization'', ''Bearer '' @ str_json py token)]
        in bind_exn (session_get net ''https://discord.com/api/users/@me'' headers) (\<lambda>response.
        if cr_status response \<noteq> 200 then Inl (HTTPException 400 ''Failed to get user info'')
        else bind_exn (cr_json response) (\<lambda>user_data.
        bind_exn (getitem token_data ''access_token'') (\<lambda>access_token.
        Inr \<lparr> cb_user = user_data, cb_access_token = access_token \<rparr>)))))))"

text \<open>\<^verbatim>\<open>except Exception as e: raise HTTPException(status_code=400, detail=str(e))\<close>\<close>

definition discord_callback :: "config \<Rightarrow> python \<Rightarrow> network \<Rightarrow> string \<Rightarrow> exn + callback_result" where
  "discord_callback cfg py net code =
    (case discord_callback_try cfg py net code of
       Inr result \<Rightarrow> Inr result
     | Inl e \<Rightarrow> Inl (HTTPException 400 (str_exn py e)))"

text \<open>
  The interpreter's and the framework's strings, for the evaluation of the handler at
  concrete inputs: \<^verbatim>\<open>str\<close> of a framework \<^verbatim>\<open>HTTPException\<close> is \<^verbatim>\<open>"<status>: <detail>"\<close>, of a
  \<^verbatim>\<open>KeyError\<close> the \<^verbatim>\<open>repr\<close> of the key, of a \<^verbatim>\<open>NameError\<close> the usual sentence, of the others
  their message. \<open>repr_str\<close> is right for keys and strings without quotes, backslashes and
  control characters.
\<close>

definition repr_str :: "string \<Rightarrow> string" where
  "repr_str s = [CHR 0x27] @ s @ [CHR 0x27]"

fun join :: "string \<Rightarrow> string list \<Rightarrow> string" where
  "join sep [] = []"
| "join sep [x] = x"
| "join sep (x # y # ys) = x @ sep @ join sep (y # ys)"

fun cpython_str_exn :: "exn \<Rightarrow> string" where
  "cpython_str_exn (HTTPException s d) = str_nat s @ '': '' @ d"
| "cpython_str_exn (ValidationError names) = join '', '' names"
| "cpython_str_exn (NameError n) = ''name '' @ repr_str n @ '' is not defined''"
| "cpython_str_exn (KeyError k) = repr_str k"
| "cpython_str_exn (TypeError m) = m"
| "cpython_str_exn (Raised m) = m"

fun repr_json :: "json \<Rightarrow> string" where
  "repr_json JNull = ''None''"
| "repr_json (JBool b) = (if b then ''True'' else ''False'')"
| "repr_json (JInt i) = str_int i"
| "repr_json (JStr s) = repr_str s"
| "repr_json (JArray xs) = ''['' @ join '', '' (map repr_json xs) @ '']''"
| "repr_json (JObject kvs) =
     ''{'' @ join '', '' (map (\<lambda>(k, v). repr_str k @ '': '' @ repr_json v) kvs) @ ''}''"

fun cpython_str_json :: "json \<Rightarrow> string" where
  "cpython_str_json (JStr s) = s"
| "cpython_str_json v = repr_json v"

definition cpython :: python where
  "cpython = \<lparr> str_exn = cpython_str_exn, str_json = cpython_str_json \<rparr>"

section \<open>Archived tickets\<close>

subsection \<open>GET /api/old-tickets (line 1846)\<close>

text \<open>
  One file of the archive directory whose name ends in \<^verbatim>\<open>.md\<close>: its stem, its path, the
  outcome of opening and reading it, and the outcome of reading its modification time,
  already printed by \<^verbatim>\<open>isoformat()\<close>. The markdown renderer is a parameter.
\<close>

record md_file =
  mf_stem :: string
  mf_path :: string
  mf_read :: "exn + string"
  mf_last_modified :: "exn + string"

record old_ticket =
  ot_id :: string
  ot_content :: string
  ot_file_path :: string
  ot_last_modified :: string

fun read_tickets :: "(string \<Rightarrow> string) \<Rightarrow> md_file list \<Rightarrow> exn + old_ticket list" where
  "read_tickets markdown [] = Inr []"
| "read_tickets markdown (md_file # rest) =
     bind_exn (mf_read md_file) (\<lambda>content.
     let html_content = markdown content
     in bind_exn (mf_last_modified md_file) (\<lambda>last_modified.
        bind_exn (read_tickets markdown rest) (\<lambda>tickets.
        Inr (\<lparr> ot_id = mf_stem md_file, ot_content = html_content,
                ot_file_path = mf_path md_file, ot_last_modified = last_modified \<rparr> # tickets))))"

text \<open>Strings compare by code point, position by position.\<close>

fun str_less :: "string \<Rightarrow> string \<Rightarrow> bool" where
  "str_less [] [] = False"
| "str_less [] (y # ys) = True"
| "str_less (x # xs) [] = False"
| "str_less (x # xs) (y # ys) = ((of_char x :: nat) < of_char y \<or> (x = y \<and> str_less xs ys))"

text \<open>
  \<^verbatim>\<open>sorted(tickets, key=lambda x: x["last_modified"], reverse=True)\<close>: descending, entries
  with equal keys in their original order.
\<close>

fun insert_desc :: "old_ticket \<Rightarrow> old_ticket list \<Rightarrow> old_ticket list" where
  "insert_desc x [] = [x]"
| "insert_desc x (y # ys) =
     (if str_less (ot_last_modified x) (ot_last_modified y) then y # insert_desc x ys else x # y # ys)"

definition sorted_desc :: "old_ticket list \<Rightarrow> old_ticket list" where
  "sorted_desc tickets = foldr insert_desc tickets []"

definition get_old_tickets :: "python \<Rightarrow> (string \<Rightarrow> string) \<Rightarrow> md_file list \<Rightarrow> exn + old_ticket list" where
  "get_old_tickets py markdown files =
    (case read_tickets markdown files of
       Inr tickets \<Rightarrow> Inr (sorted_desc tickets)
     | Inl e \<Rightarrow> Inl (HTTPException 500 (''Error reading ticket files: '' @ str_exn py e)))"

subsection \<open>The dashboard's parseTicketContent (line 1126)\<close>

text \<open>
  The script of the page matches five regular expressions against the \<^verbatim>\<open>content\<close> of each
  entry. Text is a sequence of code units below 256. \<^verbatim>\<open>\s\<close> matches tab, line feed,
  vertical tab, form feed, carriage return, space and no-break space; \<^verbatim>\<open>.\<close> matches any
  character that is not a line terminator; with the flag \<^verbatim>\<open>m\<close>, \<^verbatim>\<open>^\<close> matches at the start
  of the text and after a line terminator, \<^verbatim>\<open>$\<close> at its end and before a line terminator.
\<close>

definition is_line_terminator :: "char \<Rightarrow> bool" where
  "is_line_terminator c = (c = CHR 0x0A \<or> c = CHR 0x0D)"

definition is_space :: "char \<Rightarrow> bool" where
  "is_space c = (c \<in> set [CHR 0x09, CHR 0x0A, CHR 0x0B, CHR 0x0C, CHR 0x0D, CHR 0x20, CHR 0xA0])"

text \<open>
  \<^verbatim>\<open>\s*(.+)$\<close> at the head of a text, returning group 1: the greedy \<^verbatim>\<open>\s*\<close> first takes a
  white-space character and goes on; when the rest fails it gives that character back. The
  greedy \<^verbatim>\<open>.+\<close> then runs to the end of the line, where \<^verbatim>\<open>$\<close> holds.
\<close>

fun ws_then_line :: "string \<Rightarrow> string option" where
  "ws_then_line [] = None"
| "ws_then_line (c # cs) =
     (if is_space c
      then (case ws_then_line cs of
              Some captured \<Rightarrow> Some captured
            | None \<Rightarrow> if is_line_terminator c then None
                      else Some (takeWhile (\<lambda>x. \<not> is_line_terminator x) (c # cs)))
      else Some (takeWhile (\<lambda>x. \<not> is_line_terminator x) (c # cs)))"

fun startswith :: "string \<Rightarrow> string \<Rightarrow> bool" where
  "startswith s [] = True"
| "startswith [] (p # ps) = False"
| "startswith (c # cs) (p # ps) = (c = p \<and> startswith cs ps)"

text \<open>\<^verbatim>\<open>content.match(/<label>\s*(.+)$/m)\<close>: group 1 of the leftmost match, if any.\<close>

fun match_label :: "string \<Rightarrow> string \<Rightarrow> string option" where
  "match_label label [] = (if label = [] then ws_then_line [] else None)"
| "match_label label (c # cs) =
     (if startswith (c # cs) label
      then (case ws_then_line (drop (length label) (c # cs)) of
              Some captured \<Rightarrow> Some captured
            | None \<Rightarrow> match_label label cs)
      else match_label label cs)"

text \<open>
  \<^verbatim>\<open>content.match(/^#\s*(.+)$/m)\<close>; the flag tells whether the position is the start of
  a line.
\<close>

fun match_title :: "bool \<Rightarrow> string \<Rightarrow> string option" where
  "match_title line_start [] = None"
| "match_title line_start (c # cs) =
     (if line_start \<and> c = CHR ''#''
      then (case ws_then_line cs of
              Some captured \<Rightarrow> Some captured
            | None \<Rightarrow> match_title (is_line_terminator c) cs)
      else match_title (is_line_terminator c) cs)"

definition trim :: "string \<Rightarrow> string" where
  "trim s = rev (dropWhile is_space (rev (dropWhile is_space s)))"

record ticket_info =
  ti_title :: "string option"
  ti_author :: "string option"
  ti_created :: "string option"
  ti_status :: "string option"
  ti_tags :: "string list"

definition parseTicketContent :: "string \<Rightarrow> ticket_info" where
  "parseTicketContent content =
    (let titleMatch = match_title True content;
         authorMatch = match_label ''Created by:'' content;
         dateMatch = match_label ''Created on:'' content;
         statusMatch = match_label ''Status:'' content;
         tagsMatch = match_label ''Tags:'' content
     in \<lparr> ti_title = titleMatch, ti_author = authorMatch, ti_created = dateMatch,
          ti_status = statusMatch,
          ti_tags = (case tagsMatch of None \<Rightarrow> [] | Some g \<Rightarrow> map trim (split_on CHR '','' g)) \<rparr>)"

text \<open>
  \<^verbatim>\<open>loadOldTickets\<close> (line 1053) fetches /api/old-tickets and calls \<^verbatim>\<open>parseTicketContent\<close> on
  the \<^verbatim>\<open>content\<close> field of every entry of the answer; \<open>None\<close> is its error state, shown
  when the answer is not a list of entries.
\<close>

definition loadOldTickets :: "exn + old_ticket list \<Rightarrow> ticket_info list option" where
  "loadOldTickets response =
    (case response of
       Inr tickets \<Rightarrow> Some (map (\<lambda>ticket. parseTicketContent (ot_content ticket)) tickets)
     | Inl e \<Rightarrow> None)"

text \<open>
  The document of the scenario, and the text the markdown library renders it to: the
  heading line becomes an \<^verbatim>\<open>h1\<close> element, the three lines after it one paragraph.
\<close>

definition scenario_document :: string where
  "scenario_document =
    ''# Fix lighting bug'' @ [CHR 0x0A] @ ''Created by: alice'' @ [CHR 0x0A] @
    ''Status: closed'' @ [CHR 0x0A] @ ''Tags: lighting, bug''"

definition scenario_html :: string where
  "scenario_html =
    ''<h1>Fix lighting bug</h1>'' @ [CHR 0x0A] @ ''<p>Created by: alice'' @ [CHR 0x0A] @
    ''Status: closed'' @ [CHR 0x0A] @ ''Tags: lighting, bug</p>''"

section \<open>Values for the evaluation of the handlers\<close>

text \<open>A field of the body a handler returned, if it returned one.\<close>

definition returned :: "('r \<Rightarrow> 'a) \<Rightarrow> exn + 'r \<Rightarrow> 'a option" where
  "returned field r = (case r of Inr t \<Rightarrow> Some (field t) | Inl e \<Rightarrow> None)"






text \<open>A string between double quotes, for the text of a JSON body.\<close>

definition dq :: "string \<Rightarrow> string" where
  "dq s = [CHR 0x22] @ s @ [CHR 0x22]"

definition local_config :: config where
  "local_config = \<lparr> DISCORD_CLIENT_ID = Some ''1303089786495565875'',
      DISCORD_CLIENT_SECRET = Some ''s3cret'',
      DISCORD_REDIRECT_URI = ''http://127.0.0.1:8000/auth/callback'' \<rparr>"

definition alice_profile :: client_response where
  "alice_profile = \<lparr> cr_status = 200, cr_body = ''{'' @ dq ''id'' @ '': '' @ dq ''42'' @ '', '' @ dq ''username'' @ '': '' @ dq ''alice'' @ ''}'',
      cr_json = Inr (JObject [(''id'', JStr ''42''), (''username'', JStr ''alice'')]) \<rparr>"

definition token_granted :: client_response where
  "token_granted = \<lparr> cr_status = 200, cr_body = ''{'' @ dq ''access_token'' @ '': '' @ dq ''tok123'' @ '', '' @ dq ''token_type'' @ '': '' @ dq ''Bearer'' @ ''}'',
      cr_json = Inr (JObject [(''access_token'', JStr ''tok123''), (''token_type'', JStr ''Bearer'')]) \<rparr>"

text \<open>The token endpoint rejects the code with 401 (with 500 in the second network).\<close>

definition invalid_grant :: network where
  "invalid_grant =
    \<lparr> session_post = (\<lambda>url data. Inr \<lparr> cr_status = 401, cr_body = ''{'' @ dq ''error'' @ '': '' @ dq ''invalid_grant'' @ ''}'',
          cr_json = Inr (JObject [(''error'', JStr ''invalid_grant'')]) \<rparr>),
      session_get = (\<lambda>url headers. Inr alice_profile) \<rparr>"

definition token_endpoint_down :: network where
  "token_endpoint_down =
    \<lparr> session_post = (\<lambda>url data. Inr \<lparr> cr_status = 500, cr_body = ''upstream down'',
          cr_json = Inl (Raised ''not JSON'') \<rparr>),
      session_get = (\<lambda>url headers. Inr alice_profile) \<rparr>"

text \<open>The token is granted and the profile endpoint answers 401.\<close>

definition profile_rejected :: network where
  "profile_rejected =
    \<lparr> session_post = (\<lambda>url data. Inr token_granted),
      session_get = (\<lambda>url headers. Inr \<lparr> cr_status = 401, cr_body = ''{'' @ dq ''message'' @ '': '' @ dq ''401: Unauthorized'' @ ''}'',
          cr_json = Inr (JObject [(''message'', JStr ''401: Unauthorized'')]) \<rparr>) \<rparr>"

text \<open>The token is granted and the profile endpoint answers 503.\<close>

definition profile_endpoint_down :: network where
  "profile_endpoint_down =
    \<lparr> session_post = (\<lambda>url data. Inr token_granted),
      session_get = (\<lambda>url headers. Inr \<lparr> cr_status = 503, cr_body = ''upstream down'',
          cr_json = Inl (Raised ''not JSON'') \<rparr>) \<rparr>"


text \<open>An archive that holds the document of the scenario and nothing else.\<close>

definition scenario_archive :: "md_file list" where
  "scenario_archive =
    [ \<lparr> mf_stem = ''fix-lighting-bug'',
        mf_path = ''/Users/martintomek/vfx-discord-app/tickets/fix-lighting-bug.md'',
        mf_read = Inr scenario_document, mf_last_modified = Inr ''2024-01-15T09:00:00'' \<rparr> ]"

definition crash_on_export :: TicketCreate where
  "crash_on_export =
    \<lparr> tc_title = ''Crash on export'', tc_description = ''The exporter crashes'', tc_status = OPEN,
      tc_priority = HIGH, tc_type = BUG, tc_assigned_to = Some ''bob'', tc_project_id = ''proj1'',
      tc_asset_id = None, tc_shot_id = None, tc_due_date = None, tc_tags = [''export''],
      tc_environment = Some ''nuke_14.0'', tc_reproducibility_steps = None, tc_time_estimate = Some 2 \<rparr>"

definition flicker_in_comp :: TicketCreate where
  "flicker_in_comp =
    \<lparr> tc_title = ''Flicker in comp'', tc_description = ''Frames 10 to 20 flicker'', tc_status = OPEN,
      tc_priority = LOW, tc_type = TASK, tc_assigned_to = None, tc_project_id = ''proj2'',
      tc_asset_id = None, tc_shot_id = Some ''sh010'', tc_due_date = None, tc_tags = [],
      tc_environment = None, tc_reproducibility_steps = None, tc_time_estimate = None \<rparr>"


section \<open>Ticket ids\<close>

lemma length_strftime_Ymd: "length (strftime_Ymd t) = 8"
  by (simp add: strftime_Ymd_def digits4_def digits2_def split: prod.splits)

text \<open>
  The slice \<^verbatim>\<open>[:16]\<close> ends right after the second hyphen: the seven characters of
  \<^verbatim>\<open>TICKET-\<close>, the eight of the date and the hyphen. Nothing of the hash is left in the id.
  The constructor is given every field, so the handler returns under both versions of the
  model library.
\<close>

lemma create_ticket_returns:
  "create_ticket pv py_hash ticket current_user now1 now2 now3 now4 =
     Inr \<lparr> tr_id = ''TICKET-'' @ strftime_Ymd now1 @ ''-'', tr_title = tc_title ticket,
           tr_description = tc_description ticket, tr_status = tc_status ticket,
           tr_priority = tc_priority ticket, tr_type = tc_type ticket,
           tr_created_by = current_user, tr_assigned_to = tc_assigned_to ticket,
           tr_project_id = tc_project_id ticket, tr_created_at = now3, tr_updated_at = now4,
           tr_due_date = tc_due_date ticket, tr_tags = tc_tags ticket,
           tr_environment = tc_environment ticket, tr_time_estimate = tc_time_estimate ticket,
           tr_time_spent = Some 0 \<rparr>"
  by (cases pv) (simp_all add: create_ticket_def TicketResponse_init_def length_strftime_Ymd)

lemma strftime_morning: "strftime_Ymd 63840906000000000 = ''20240115''"
  by code_simp

lemma strftime_evening: "strftime_Ymd 63840936600000001 = ''20240115''"
  by code_simp

text \<open>Two tickets created on the same date get the same id.\<close>

lemma same_date_same_id:
  "strftime_Ymd now1 = strftime_Ymd now1' \<Longrightarrow>
     returned tr_id (create_ticket pv h ticket user now1 now2 now3 now4)
       = returned tr_id (create_ticket pv' h' ticket' user' now1' now2' now3' now4')"
  by (simp add: create_ticket_returns returned_def)

text \<open>
  C1. The claim: the id of a created ticket differs from the id of every ticket created
  before. On the code it fails: a ticket created on 2024-01-15 at 09:00:00 and another one,
  with other content and by another user, created the same day at 17:30:00.000001 both get
  the id \<^verbatim>\<open>TICKET-20240115-\<close>, whatever the hash function is.
\<close>

theorem create_ticket_ids_collide:
  "returned tr_id (create_ticket pv h1 crash_on_export ''user123''
       63840906000000000 63840906000000007 63840906000000011 63840906000000013)
     = Some ''TICKET-20240115-''
   \<and> returned tr_id (create_ticket pv h2 flicker_in_comp ''user456''
       63840936600000001 63840936600000005 63840936600000008 63840936600000009)
     = Some ''TICKET-20240115-''"
  by (simp add: create_ticket_returns returned_def strftime_morning strftime_evening)

section \<open>Lookups by ticket id\<close>





text \<open>No call of \<^verbatim>\<open>create_ticket\<close> ever returned the id \<^verbatim>\<open>no-such-ticket\<close>.\<close>

lemma no_such_ticket_never_created:
  "returned tr_id (create_ticket pv h ticket user now1 now2 now3 now4) \<noteq> Some ''no-such-ticket''"
  by (simp add: create_ticket_returns returned_def)



section \<open>Reading a ticket back\<close>



section \<open>Updating a ticket\<close>



section \<open>The OAuth callback\<close>

lemma callback_token_not_200:
  "session_post net ''https://discord.com/api/oauth2/token'' (token_form cfg code) = Inr response \<Longrightarrow>
   cr_status response \<noteq> 200 \<Longrightarrow>
   discord_callback cfg py net code =
     Inl (HTTPException 400 (str_exn py (HTTPException 400 ''Failed to get access token'')))"
  by (simp add: discord_callback_def discord_callback_try_def bind_exn_def)

lemma callback_profile_not_200:
  "session_post net ''https://discord.com/api/oauth2/token'' (token_form cfg code) = Inr response \<Longrightarrow>
   cr_status response = 200 \<Longrightarrow> cr_json response = Inr token_data \<Longrightarrow>
   getitem token_data ''access_token'' = Inr token \<Longrightarrow>
   session_get net ''https://discord.com/api/users/@me''
     [(''Authorization'', ''Bearer '' @ str_json py token)] = Inr profile \<Longrightarrow>
   cr_status profile \<noteq> 200 \<Longrightarrow>
   discord_callback cfg py net code =
     Inl (HTTPException 400 (str_exn py (HTTPException 400 ''Failed to get user info'')))"
  by (simp add: discord_callback_def discord_callback_try_def bind_exn_def)



text \<open>When both upstream requests succeed the callback returns the profile and the token.\<close>

lemma callback_succeeds:
  "discord_callback local_config cpython
     \<lparr> session_post = (\<lambda>url data. Inr token_granted), session_get = (\<lambda>url headers. Inr alice_profile) \<rparr>
     ''abc''
   = Inr \<lparr> cb_user = JObject [(''id'', JStr ''42''), (''username'', JStr ''alice'')],
           cb_access_token = JStr ''tok123'' \<rparr>"
  by (simp add: discord_callback_def discord_callback_try_def bind_exn_def token_granted_def
      alice_profile_def)

text \<open>
  C5, as the code has it. When the token endpoint answers with a status other than 200,
  the callback fails with 400 and the detail is \<^verbatim>\<open>str\<close> of the exception the handler itself
  raised with the fixed message \<^verbatim>\<open>Failed to get access token\<close>; when the token step
  succeeded and the profile endpoint answers with a status other than 200, it fails with
  400 and the fixed message \<^verbatim>\<open>Failed to get user info\<close>. The upstream body is not read in
  either case, and a non-200 status is not the only way the exchange fails (see C10).
\<close>

theorem upstream_failure_has_fixed_detail:
  "(session_post net ''https://discord.com/api/oauth2/token'' (token_form cfg code) = Inr response
      \<longrightarrow> cr_status response \<noteq> 200
      \<longrightarrow> discord_callback cfg py net code =
            Inl (HTTPException 400 (str_exn py (HTTPException 400 ''Failed to get access token''))))
   \<and> (session_post net ''https://discord.com/api/oauth2/token'' (token_form cfg code) = Inr response
      \<longrightarrow> cr_status response = 200 \<longrightarrow> cr_json response = Inr token_data
      \<longrightarrow> getitem token_data ''access_token'' = Inr token
      \<longrightarrow> session_get net ''https://discord.com/api/users/@me''
            [(''Authorization'', ''Bearer '' @ str_json py token)] = Inr profile
      \<longrightarrow> cr_status profile \<noteq> 200
      \<longrightarrow> discord_callback cfg py net code =
            Inl (HTTPException 400 (str_exn py (HTTPException 400 ''Failed to get user info''))))"
  using callback_token_not_200 callback_profile_not_200 by blast

theorem upstream_failure_has_fixed_detail_witness:
  "discord_callback local_config cpython token_endpoint_down ''abc''
     = Inl (HTTPException 400 ''400: Failed to get access token'')
   \<and> discord_callback local_config cpython profile_endpoint_down ''abc''
     = Inl (HTTPException 400 ''400: Failed to get user info'')"
proof -
  have post: "session_post token_endpoint_down ''https://discord.com/api/oauth2/token''
      (token_form local_config ''abc'')
    = Inr \<lparr> cr_status = 500, cr_body = ''upstream down'', cr_json = Inl (Raised ''not JSON'') \<rparr>"
    by (simp add: token_endpoint_down_def)
  have detail1: "str_exn cpython (HTTPException 400 ''Failed to get access token'')
    = ''400: Failed to get access token''"
    unfolding cpython_def by simp code_simp
  have detail2: "str_exn cpython (HTTPException 400 ''Failed to get user info'')
    = ''400: Failed to get user info''"
    unfolding cpython_def by simp code_simp
  have post2: "session_post profile_endpoint_down ''https://discord.com/api/oauth2/token''
      (token_form local_config ''abc'') = Inr token_granted"
    by (simp add: profile_endpoint_down_def)
  have get2: "session_get profile_endpoint_down ''https://discord.com/api/users/@me''
      [(''Authorization'', ''Bearer '' @ str_json cpython (JStr ''tok123''))]
    = Inr \<lparr> cr_status = 503, cr_body = ''upstream down'', cr_json = Inl (Raised ''not JSON'') \<rparr>"
    by (simp add: profile_endpoint_down_def)
  have token: "cr_status token_granted = 200"
    "cr_json token_granted
       = Inr (JObject [(''access_token'', JStr ''tok123''), (''token_type'', JStr ''Bearer'')])"
    "getitem (JObject [(''access_token'', JStr ''tok123''), (''token_type'', JStr ''Bearer'')])
       ''access_token'' = Inr (JStr ''tok123'')"
    by (simp_all add: token_granted_def)
  from upstream_failure_has_fixed_detail [of token_endpoint_down local_config "''abc''" _ cpython] post
  have first: "discord_callback local_config cpython token_endpoint_down ''abc''
      = Inl (HTTPException 400 ''400: Failed to get access token'')"
    by (simp add: detail1)
  from upstream_failure_has_fixed_detail
    [of profile_endpoint_down local_config "''abc''" token_granted cpython
        "JObject [(''access_token'', JStr ''tok123''), (''token_type'', JStr ''Bearer'')]"
        "JStr ''tok123''"
        "\<lparr> cr_status = 503, cr_body = ''upstream down'', cr_json = Inl (Raised ''not JSON'') \<rparr>"]
    post2 get2 token
  have second: "discord_callback local_config cpython profile_endpoint_down ''abc''
      = Inl (HTTPException 400 ''400: Failed to get user info'')"
    by (simp add: detail2)
  from first second show ?thesis by simp
qed

text \<open>
  The claim C5 as stated, that the detail of the 400 is the upstream body, is false when
  the token endpoint answers 401 with the body \<^verbatim>\<open>{"error": "invalid_grant"}\<close>, and when the
  profile endpoint answers 401 with the body \<^verbatim>\<open>{"message": "401: Unauthorized"}\<close>: the
  details are the handler's two fixed messages.
\<close>

theorem upstream_detail_counterexample:
  "discord_callback local_config cpython invalid_grant ''abc''
     = Inl (HTTPException 400 ''400: Failed to get access token'')
   \<and> discord_callback local_config cpython profile_rejected ''abc''
     = Inl (HTTPException 400 ''400: Failed to get user info'')"
  by (simp add: discord_callback_def discord_callback_try_def bind_exn_def invalid_grant_def
      profile_rejected_def token_granted_def cpython_def) code_simp



section \<open>The login redirect\<close>

lemma oauth_url_text:
  "oauth_url = ''https://discord.com/api/oauth2/authorize?client_id=1303089786495565875&permissions=8&response_type=code&redirect_uri=http%3A//127.0.0.1%3A8000/auth/callback&scope=bot%20applications.commands%20identify%20guilds%20guilds.members.read''"
  by code_simp

text \<open>Were the name bound, the handler would answer with a 307 redirect to that URL.\<close>

lemma discord_login_bound:
  "''urllib'' \<in> set globals \<Longrightarrow>
     discord_login globals = Inr \<lparr> rr_status_code = 307, rr_url = oauth_url \<rparr>"
  by (simp add: discord_login_def)

text \<open>
  C6. The claim: GET /auth/login answers with a redirect to the authorize URL. On the code
  it fails: the file imports \<^verbatim>\<open>quote\<close> and \<^verbatim>\<open>urlencode\<close> from \<^verbatim>\<open>urllib.parse\<close> but never binds
  the name \<^verbatim>\<open>urllib\<close>, which the handler reads; every request raises \<^verbatim>\<open>NameError\<close> and is
  answered with 500.
\<close>

theorem discord_login_raises_NameError:
  "discord_login module_globals = Inl (NameError ''urllib'')
   \<and> status_code (discord_login module_globals) = 500"
  by (simp add: discord_login_def module_globals_def)

section \<open>Which handler serves a path\<close>

lemma segments_match_Nil: "segments_match [] xs = (xs = [])"
  by (cases xs) auto

lemma segments_match_Cons:
  "segments_match (p # ps) xs =
     (\<exists>s ss. xs = s # ss \<and> (if is_param p then s \<noteq> [] else p = s) \<and> segments_match ps ss)"
  by (cases xs) auto

text \<open>A request that is served is served by a route of the list that matches it fully.\<close>

lemma resolve_Serve_route:
  "resolve rs partial method path = Serve e ps \<Longrightarrow>
     \<exists>r \<in> set rs. endpoint_of r = e \<and> full_match r method path"
proof (induction rs arbitrary: partial)
  case Nil
  then show ?case by (simp split: if_splits)
next
  case (Cons r rs)
  show ?case
  proof (cases r)
    case (Route m pattern e')
    with Cons show ?thesis by (auto split: if_splits)
  next
    case (Mount prefix e')
    with Cons show ?thesis by (auto split: if_splits)
  qed
qed

text \<open>A route that matches fully hides every route after it.\<close>

lemma first_match_wins:
  "resolve (pre @ r # post) partial method path = Serve e ps \<Longrightarrow> full_match r method path \<Longrightarrow>
     e \<in> endpoint_of ` set (pre @ [r])"
proof (induction pre arbitrary: partial)
  case Nil
  then show ?case by (cases r) (auto split: if_splits)
next
  case (Cons q pre)
  show ?case
  proof (cases q)
    case (Route m pattern e')
    with Cons.prems Cons.IH show ?thesis by (auto split: if_splits)
  next
    case (Mount prefix e')
    with Cons.prems Cons.IH show ?thesis by (auto split: if_splits)
  qed
qed

lemma dispatch_post_tickets: "dispatch ''POST'' ''/api/tickets'' = Serve Create_ticket_1558 []"
  by code_simp

lemma dispatch_get_tickets: "dispatch ''GET'' ''/api/tickets'' = Serve List_tickets []"
  by code_simp

lemma routes_split_post:
  "routes = take 22 routes @ Route ''POST'' ''/api/tickets'' Create_ticket_1558 # drop 23 routes"
  by (simp add: routes_def)

lemma routes_split_get:
  "routes = take 24 routes @ Route ''GET'' ''/api/tickets'' List_tickets # drop 25 routes"
  by (simp add: routes_def)

lemma never_Create_ticket_1805: "dispatch method path \<noteq> Serve Create_ticket_1805 ps"
proof
  assume served: "dispatch method path = Serve Create_ticket_1805 ps"
  then obtain r where r: "r \<in> set routes" "endpoint_of r = Create_ticket_1805"
      "full_match r method path"
    unfolding dispatch_def by (blast dest: resolve_Serve_route)
  from r(1,2) have "r = Route ''POST'' ''/api/tickets'' Create_ticket_1805"
    by (auto simp: routes_def)
  with r(3) have "full_match (Route ''POST'' ''/api/tickets'' Create_ticket_1558) method path"
    by simp
  moreover from served have
    "resolve (take 22 routes @ Route ''POST'' ''/api/tickets'' Create_ticket_1558 # drop 23 routes)
       False method path = Serve Create_ticket_1805 ps"
    unfolding dispatch_def using routes_split_post by simp
  ultimately have "Create_ticket_1805
      \<in> endpoint_of ` set (take 22 routes @ [Route ''POST'' ''/api/tickets'' Create_ticket_1558])"
    by (rule first_match_wins [rotated])
  then show False by (simp add: routes_def)
qed

lemma never_Get_tickets_1776: "dispatch method path \<noteq> Serve Get_tickets_1776 ps"
proof
  assume served: "dispatch method path = Serve Get_tickets_1776 ps"
  then obtain r where r: "r \<in> set routes" "endpoint_of r = Get_tickets_1776"
      "full_match r method path"
    unfolding dispatch_def by (blast dest: resolve_Serve_route)
  from r(1,2) have "r = Route ''GET'' ''/api/tickets'' Get_tickets_1776"
    by (auto simp: routes_def)
  with r(3) have "full_match (Route ''GET'' ''/api/tickets'' List_tickets) method path"
    by simp
  moreover from served have
    "resolve (take 24 routes @ Route ''GET'' ''/api/tickets'' List_tickets # drop 25 routes)
       False method path = Serve Get_tickets_1776 ps"
    unfolding dispatch_def using routes_split_get by simp
  ultimately have "Get_tickets_1776
      \<in> endpoint_of ` set (take 24 routes @ [Route ''GET'' ''/api/tickets'' List_tickets])"
    by (rule first_match_wins [rotated])
  then show False by (simp add: routes_def)
qed

text \<open>
  C8, as the code has it: of two handlers registered for the same method and path, the
  one registered first serves. POST /api/tickets is served by the \<^verbatim>\<open>create_ticket\<close> of line
  1558 and GET /api/tickets by \<^verbatim>\<open>list_tickets\<close> of line 1604; the handlers registered for
  them later, \<^verbatim>\<open>create_ticket\<close> of line 1805 and \<^verbatim>\<open>get_tickets\<close> of line 1776, serve no
  request at all.
\<close>

theorem first_registration_serves:
  "dispatch ''POST'' ''/api/tickets'' = Serve Create_ticket_1558 []
   \<and> dispatch ''GET'' ''/api/tickets'' = Serve List_tickets []
   \<and> dispatch method path \<noteq> Serve Create_ticket_1805 ps
   \<and> dispatch method path \<noteq> Serve Get_tickets_1776 ps"
  by (simp add: dispatch_post_tickets dispatch_get_tickets never_Create_ticket_1805
      never_Get_tickets_1776)

text \<open>
  The claim C8 as stated, that the handler defined later serves the two paths, is false:
  neither request reaches the later handler.
\<close>

theorem later_registration_counterexample:
  "dispatch ''POST'' ''/api/tickets'' \<noteq> Serve Create_ticket_1805 []
   \<and> dispatch ''GET'' ''/api/tickets'' \<noteq> Serve Get_tickets_1776 []"
  by (simp add: dispatch_post_tickets dispatch_get_tickets)

section \<open>Ticket statistics\<close>

text \<open>
  The route of \<^verbatim>\<open>get_ticket\<close> is registered before the route of the statistics and its
  pattern matches the path, with \<^verbatim>\<open>statistics\<close> as the ticket id: a request for
  /api/tickets/statistics does not reach \<^verbatim>\<open>get_ticket_statistics\<close>.
\<close>

lemma statistics_route_is_hidden:
  "dispatch ''GET'' ''/api/tickets/statistics'' = Serve Get_ticket [(''ticket_id'', ''statistics'')]"
  by code_simp

lemma never_Get_ticket_statistics: "dispatch method path \<noteq> Serve Get_ticket_statistics ps"
proof
  assume served: "dispatch method path = Serve Get_ticket_statistics ps"
  then obtain r where r: "r \<in> set routes" "endpoint_of r = Get_ticket_statistics"
      "full_match r method path"
    unfolding dispatch_def by (blast dest: resolve_Serve_route)
  from r(1,2) have "r = Route ''GET'' ''/api/tickets/statistics'' Get_ticket_statistics"
    by (auto simp: routes_def)
  with r(3) have m: "method = ''GET''" and p: "path_matches ''/api/tickets/statistics'' path"
    by simp_all
  have s1: "split_on CHR ''/'' ''/api/tickets/statistics'' = [[], ''api'', ''tickets'', ''statistics'']"
    by code_simp
  have s2: "split_on CHR ''/'' ''/api/tickets/{ticket_id}'' = [[], ''api'', ''tickets'', ''{ticket_id}'']"
    by code_simp
  from p have "path_matches ''/api/tickets/{ticket_id}'' path"
    unfolding path_matches_def s1 s2
    by (auto simp: segments_match_Cons segments_match_Nil is_param_def)
  with m have "full_match (Route ''GET'' ''/api/tickets/{ticket_id}'' Get_ticket) method path"
    by simp
  moreover have "routes = take 23 routes @ Route ''GET'' ''/api/tickets/{ticket_id}'' Get_ticket # drop 24 routes"
    by (simp add: routes_def)
  with served have
    "resolve (take 23 routes @ Route ''GET'' ''/api/tickets/{ticket_id}'' Get_ticket # drop 24 routes)
       False method path = Serve Get_ticket_statistics ps"
    unfolding dispatch_def by simp
  ultimately have "Get_ticket_statistics
      \<in> endpoint_of ` set (take 23 routes @ [Route ''GET'' ''/api/tickets/{ticket_id}'' Get_ticket])"
    by (rule first_match_wins [rotated])
  then show False by (simp add: routes_def)
qed



section \<open>The archived ticket of the scenario\<close>

text \<open>On the text of the document itself the script extracts the fields of the scenario.\<close>

lemma parse_scenario_document:
  "parseTicketContent scenario_document =
     \<lparr> ti_title = Some ''Fix lighting bug'', ti_author = Some ''alice'', ti_created = None,
       ti_status = Some ''closed'', ti_tags = [''lighting'', ''bug''] \<rparr>"
  by code_simp

lemma parse_scenario_html:
  "parseTicketContent scenario_html =
     \<lparr> ti_title = None, ti_author = Some ''alice'', ti_created = None,
       ti_status = Some ''closed'', ti_tags = [''lighting'', ''bug</p>''] \<rparr>"
  by code_simp

text \<open>No title is found in a text without a hash sign, as rendered headings are.\<close>

lemma match_title_no_hash: "CHR ''#'' \<notin> set content \<Longrightarrow> match_title line_start content = None"
  by (induction content arbitrary: line_start) auto

text \<open>
  C9. The claim: the archive that holds the document of the scenario yields one entry with
  the title \<^verbatim>\<open>Fix lighting bug\<close>, the author \<^verbatim>\<open>alice\<close>, the status \<^verbatim>\<open>closed\<close> and the tags
  \<^verbatim>\<open>lighting\<close> and \<^verbatim>\<open>bug\<close>. On the code it fails: the endpoint returns the document rendered
  to HTML, and the script of the page, written for markdown text, is run on that HTML.
  With the rendering of the markdown library the entry has no title, and its second tag is
  \<^verbatim>\<open>bug</p>\<close>.
\<close>

theorem archived_scenario_on_rendered_content:
  "markdown scenario_document = scenario_html \<Longrightarrow>
   loadOldTickets (get_old_tickets py markdown scenario_archive) =
     Some [ \<lparr> ti_title = None, ti_author = Some ''alice'', ti_created = None,
              ti_status = Some ''closed'', ti_tags = [''lighting'', ''bug</p>''] \<rparr> ]"
  by (simp add: loadOldTickets_def get_old_tickets_def scenario_archive_def bind_exn_def
      sorted_desc_def parse_scenario_html)

theorem archived_scenario_on_rendered_content_witness:
  "loadOldTickets (get_old_tickets cpython (\<lambda>document. scenario_html) scenario_archive) =
     Some [ \<lparr> ti_title = None, ti_author = Some ''alice'', ti_created = None,
              ti_status = Some ''closed'', ti_tags = [''lighting'', ''bug</p>''] \<rparr> ]"
  using archived_scenario_on_rendered_content [of "\<lambda>document. scenario_html" cpython] by simp

end
